theory Spec2Isabelle
  imports Main
begin

section \<open>Wire values, strings and dates\<close>

text \<open>
  The handlers of \<^verbatim>\<open>apis/views.py\<close> receive \<^verbatim>\<open>request.data\<close>, the parsed JSON
  body, and hand it to the serializers of \<^verbatim>\<open>apis/serializers.py\<close>. A JSON value is
  one of the constructors below (JSON numbers with a fraction are left out). A request
  body that is a JSON object is a field mapping from names to values. Python strings are
  modelled by \<^typ>\<open>string\<close>, one \<^typ>\<open>char\<close> per code point below 256.
\<close>

datatype json =
    JNull
  | JBool bool
  | JInt int
  | JStr string
  | JArr "json list"
  | JObj "(string \<times> json) list"

type_synonym payload = "string \<rightharpoonup> json"

text \<open>\<^verbatim>\<open>str.isspace\<close> on the code points below 256, and \<^verbatim>\<open>str.strip()\<close>.\<close>

definition is_space :: "char \<Rightarrow> bool" where
  "is_space c = ((of_char c :: nat) \<in> {9, 10, 11, 12, 13, 28, 29, 30, 31, 32, 133, 160})"

definition strip :: "string \<Rightarrow> string" where
  "strip s = rev (dropWhile is_space (rev (dropWhile is_space s)))"

definition is_digit :: "char \<Rightarrow> bool" where
  "is_digit c = (48 \<le> (of_char c :: nat) \<and> (of_char c :: nat) \<le> 57)"

definition digit_char :: "nat \<Rightarrow> char" where
  "digit_char n = char_of (48 + n)"

definition digits_val :: "string \<Rightarrow> nat" where
  "digits_val s = foldl (\<lambda>n c. 10 * n + ((of_char c :: nat) - 48)) 0 s"

text \<open>\<^verbatim>\<open>str(n)\<close> for a Python integer.\<close>

fun str_nat :: "nat \<Rightarrow> string" where
  "str_nat n = (if n < 10 then [digit_char n] else str_nat (n div 10) @ [digit_char (n mod 10)])"

declare str_nat.simps [simp del]

definition str_int :: "int \<Rightarrow> string" where
  "str_int i = (if i < 0 then CHR ''-'' # str_nat (nat (- i)) else str_nat (nat i))"

text \<open>
  \<^verbatim>\<open>int(s)\<close> on a string, base 10, as Python 3.11 reads it: surrounding whitespace
  is dropped, one sign is allowed, single underscores may separate digits, and more
  than 4300 digits are refused. The whitespace \<^verbatim>\<open>int\<close> drops is narrower than that of
  \<^verbatim>\<open>str.strip()\<close>: the separators U+001C to U+001F are not part of it. \<open>None\<close> is
  \<^verbatim>\<open>ValueError\<close>.
\<close>

definition int_space :: "char \<Rightarrow> bool" where
  "int_space c = ((of_char c :: nat) \<in> {9, 10, 11, 12, 13, 32, 133, 160})"

fun digit_groups :: "string \<Rightarrow> bool" where
  "digit_groups [] = False"
| "digit_groups [c] = is_digit c"
| "digit_groups (c # d # r) =
     (is_digit c \<and> (if d = CHR ''_'' then digit_groups r else digit_groups (d # r)))"

definition py_int :: "string \<Rightarrow> int option" where
  "py_int s =
     (let t = rev (dropWhile int_space (rev (dropWhile int_space s)));
          neg = (case t of [] \<Rightarrow> False | c # _ \<Rightarrow> c = CHR ''-'');
          u = (case t of [] \<Rightarrow> [] | c # r \<Rightarrow> if c = CHR ''-'' \<or> c = CHR ''+'' then r else t);
          ds = filter (\<lambda>c. c \<noteq> CHR ''_'') u
      in if digit_groups u \<and> length ds \<le> 4300
         then Some ((if neg then - 1 else 1) * int (digits_val ds))
         else None)"

text \<open>
  \<^verbatim>\<open>datetime.date\<close>: the constructor raises \<^verbatim>\<open>ValueError\<close> (here \<open>None\<close>) outside
  years 1 to 9999, months 1 to 12 and the days of the month.
\<close>

record date =
  year :: nat
  month :: nat
  day :: nat

definition is_leap :: "nat \<Rightarrow> bool" where
  "is_leap y = (if y mod 400 = 0 then True else if y mod 100 = 0 then False else y mod 4 = 0)"

definition days_in_month :: "nat \<Rightarrow> nat \<Rightarrow> nat" where
  "days_in_month y m =
     (if m = 2 then (if is_leap y then 29 else 28)
      else if m = 4 \<or> m = 6 \<or> m = 9 \<or> m = 11 then 30 else 31)"

definition make_date :: "nat \<Rightarrow> nat \<Rightarrow> nat \<Rightarrow> date option" where
  "make_date y m d =
     (if 1 \<le> y \<and> y \<le> 9999 \<and> 1 \<le> m \<and> m \<le> 12 \<and> 1 \<le> d \<and> d \<le> days_in_month y m
      then Some \<lparr>year = y, month = m, day = d\<rparr> else None)"

text \<open>
  \<^verbatim>\<open>date.fromisoformat\<close> of Python 3.11, which reads the string as UTF-8 bytes: the
  length in bytes must be 7, 8 or 10; then come four digits of the year, an optional
  \<^verbatim>\<open>-\<close>, and either \<^verbatim>\<open>W\<close>, two digits of the ISO week and, if the string is longer,
  the separator again (when one was used) and one digit of the week day, or two digits
  of the month, the separator again and two digits of the day. What follows the last
  digit read is not looked at. A week date is converted to year, month and day through
  its proleptic Gregorian ordinal.
\<close>

definition utf8_len :: "string \<Rightarrow> nat" where
  "utf8_len s = length s + length (filter (\<lambda>c. 128 \<le> (of_char c :: nat)) s)"

definition take_digits :: "nat \<Rightarrow> string \<Rightarrow> (nat \<times> string) option" where
  "take_digits n s =
     (if n \<le> length s \<and> list_all is_digit (take n s)
      then Some (digits_val (take n s), drop n s) else None)"

text \<open>\<^verbatim>\<open>uses_separator && *(p++) != '-'\<close>: \<open>None\<close> when the separator is due and missing.\<close>

definition skip_separator :: "bool \<Rightarrow> string \<Rightarrow> string option" where
  "skip_separator uses_separator r =
     (if uses_separator
      then (case r of [] \<Rightarrow> None | c # r' \<Rightarrow> if c = CHR ''-'' then Some r' else None)
      else Some r)"

definition days_before_year :: "nat \<Rightarrow> nat" where
  "days_before_year y = (y - 1) * 365 + (y - 1) div 4 - (y - 1) div 100 + (y - 1) div 400"

definition days_before_month :: "nat \<Rightarrow> nat" where
  "days_before_month m = [0, 0, 31, 59, 90, 120, 151, 181, 212, 243, 273, 304, 334] ! m"

text \<open>\<^verbatim>\<open>ord_to_ymd\<close>: the date of an ordinal, counting 0001-01-01 as 1.\<close>

definition ord_to_ymd :: "nat \<Rightarrow> nat \<times> nat \<times> nat" where
  "ord_to_ymd ordinal =
     (let n400 = (ordinal - 1) div 146097; r400 = (ordinal - 1) mod 146097;
          n100 = r400 div 36524; r100 = r400 mod 36524;
          n4 = r100 div 1461; r4 = r100 mod 1461;
          n1 = r4 div 365; n = r4 mod 365;
          y = n400 * 400 + 1 + n100 * 100 + n4 * 4 + n1
      in if n1 = 4 \<or> n100 = 4 then (y - 1, 12, 31)
         else
           (let leapyear = (n1 = 3 \<and> (n4 \<noteq> 24 \<or> n100 = 3));
                m = (n + 50) div 32;
                preceding = days_before_month m + (if 2 < m \<and> leapyear then 1 else 0)
            in if n < preceding
               then (y, m - 1, n - (preceding - days_in_month y (m - 1)) + 1)
               else (y, m, n - preceding + 1)))"

text \<open>
  \<^verbatim>\<open>iso_to_ymd\<close>: week 53 exists only in a year that starts on a Thursday, or on a
  Wednesday when it is a leap year; week 1 is the week of the year's first Thursday.
\<close>

definition iso_to_ymd :: "nat \<Rightarrow> nat \<Rightarrow> nat \<Rightarrow> (nat \<times> nat \<times> nat) option" where
  "iso_to_ymd iso_year iso_week iso_day =
     (let first_day = days_before_year iso_year + 1;
          first_weekday = (first_day + 6) mod 7
      in if iso_year < 1 \<or> 9999 < iso_year then None
         else if (iso_week = 0 \<or> 53 \<le> iso_week)
                 \<and> \<not> (iso_week = 53
                        \<and> (first_weekday = 3 \<or> (first_weekday = 2 \<and> is_leap iso_year)))
         then None
         else if iso_day = 0 \<or> 8 \<le> iso_day then None
         else Some (ord_to_ymd
                (first_day + (if 3 < first_weekday then 7 else 0) - first_weekday
                 + (iso_week - 1) * 7 + iso_day - 1)))"

definition parse_isoformat_date :: "string \<Rightarrow> (nat \<times> nat \<times> nat) option" where
  "parse_isoformat_date s =
     (case take_digits 4 s of
        None \<Rightarrow> None
      | Some (y, r) \<Rightarrow>
          (let uses_separator = (case r of [] \<Rightarrow> False | c # _ \<Rightarrow> c = CHR ''-'');
               r1 = (if uses_separator then tl r else r)
           in if (case r1 of [] \<Rightarrow> False | c # _ \<Rightarrow> c = CHR ''W'')
              then
                (case take_digits 2 (tl r1) of
                   None \<Rightarrow> None
                 | Some (w, r2) \<Rightarrow>
                     if 4 + (if uses_separator then 1 else 0) + 3 < utf8_len s
                     then
                       (case skip_separator uses_separator r2 of
                          None \<Rightarrow> None
                        | Some r3 \<Rightarrow>
                            (case take_digits 1 r3 of
                               None \<Rightarrow> None
                             | Some (wd, _) \<Rightarrow> iso_to_ymd y w wd))
                     else iso_to_ymd y w 1)
              else
                (case take_digits 2 r1 of
                   None \<Rightarrow> None
                 | Some (m, r2) \<Rightarrow>
                     (case skip_separator uses_separator r2 of
                        None \<Rightarrow> None
                      | Some r3 \<Rightarrow>
                          (case take_digits 2 r3 of
                             None \<Rightarrow> None
                           | Some (d, _) \<Rightarrow> Some (y, m, d))))))"

definition fromisoformat :: "string \<Rightarrow> date option" where
  "fromisoformat s =
     (if utf8_len s = 7 \<or> utf8_len s = 8 \<or> utf8_len s = 10
      then (case parse_isoformat_date s of
              None \<Rightarrow> None
            | Some (y, m, d) \<Rightarrow> make_date y m d)
      else None)"

fun split_on :: "char \<Rightarrow> string \<Rightarrow> string list" where
  "split_on c [] = [[]]"
| "split_on c (x # xs) =
     (if x = c then [] # split_on c xs
      else (case split_on c xs of [] \<Rightarrow> [[x]] | p # ps \<Rightarrow> (x # p) # ps))"

text \<open>
  The pattern \<^verbatim>\<open>(\d{4})-(\d{1,2})-(\d{1,2})$\<close> of \<^verbatim>\<open>django.utils.dateparse\<close>, matched
  from the start (\<^verbatim>\<open>$\<close> also matches before one final newline), and the
  \<^verbatim>\<open>datetime.date\<close> constructor on its three groups.
\<close>

definition date_re_date :: "string \<Rightarrow> date option" where
  "date_re_date s =
     (let s' = (if s \<noteq> [] \<and> last s = CHR 0x0A then butlast s else s) in
      case split_on CHR ''-'' s' of
        [y, m, d] \<Rightarrow>
          if length y = 4 \<and> list_all is_digit y
             \<and> (length m = 1 \<or> length m = 2) \<and> list_all is_digit m
             \<and> (length d = 1 \<or> length d = 2) \<and> list_all is_digit d
          then make_date (digits_val y) (digits_val m) (digits_val d)
          else None
      | _ \<Rightarrow> None)"

text \<open>
  \<^verbatim>\<open>django.utils.dateparse.parse_date\<close> on a string: \<^verbatim>\<open>date.fromisoformat\<close>, and when
  that raises \<^verbatim>\<open>ValueError\<close> the pattern. \<open>None\<close> stands for no match and for the
  constructor's \<^verbatim>\<open>ValueError\<close> alike: the date field treats both as a wrong format.
\<close>

definition parse_date :: "string \<Rightarrow> date option" where
  "parse_date s = (case fromisoformat s of Some d \<Rightarrow> Some d | None \<Rightarrow> date_re_date s)"

text \<open>\<^verbatim>\<open>date.isoformat()\<close>: \<^verbatim>\<open>YYYY-MM-DD\<close>, zero padded.\<close>

definition isoformat :: "date \<Rightarrow> string" where
  "isoformat d =
     [digit_char (year d div 1000), digit_char (year d div 100 mod 10),
      digit_char (year d div 10 mod 10), digit_char (year d mod 10), CHR ''-'',
      digit_char (month d div 10), digit_char (month d mod 10), CHR ''-'',
      digit_char (day d div 10), digit_char (day d mod 10)]"

section \<open>Entity store (\<^verbatim>\<open>apis/models.py\<close>)\<close>

text \<open>
  \<^verbatim>\<open>Book\<close> has \<^verbatim>\<open>title\<close>, \<^verbatim>\<open>author\<close> (\<^verbatim>\<open>CharField(max_length=255)\<close>) and
  \<^verbatim>\<open>published_date\<close> (\<^verbatim>\<open>DateField\<close>). \<^verbatim>\<open>Review\<close> has the foreign key \<^verbatim>\<open>book\<close>
  (the column \<^verbatim>\<open>book_id\<close>, holding the key of the book) with
  \<^verbatim>\<open>on_delete = models.CASCADE\<close>, \<^verbatim>\<open>reviewer\<close>, \<^verbatim>\<open>text\<close>, \<^verbatim>\<open>rating\<close> and
  \<^verbatim>\<open>created_at\<close> (a timestamp, here a number). Each table maps the automatic primary
  key to its row and remembers the last key it handed out.
\<close>

record book =
  title :: string
  author :: string
  published_date :: date

record review =
  book_id :: int
  reviewer :: string
  review_text :: string
  rating :: int
  created_at :: nat

record store =
  books :: "int \<rightharpoonup> book"
  reviews :: "int \<rightharpoonup> review"
  book_seq :: int
  review_seq :: int

text \<open>\<^verbatim>\<open>Book.objects.get(pk=pk)\<close>: \<open>None\<close> is \<^verbatim>\<open>Book.DoesNotExist\<close>.\<close>

definition Book_objects_get :: "int \<Rightarrow> store \<Rightarrow> (int \<times> book) option" where
  "Book_objects_get pk s = map_option (Pair pk) (books s pk)"

text \<open>\<^verbatim>\<open>Book.objects.all()\<close>: every row, in key order.\<close>

definition Book_objects_all :: "store \<Rightarrow> (int \<times> book) list" where
  "Book_objects_all s = List.map_filter (\<lambda>k. Book_objects_get k s) [1..book_seq s]"

definition Review_objects_all :: "store \<Rightarrow> (int \<times> review) list" where
  "Review_objects_all s =
     List.map_filter (\<lambda>k. map_option (Pair k) (reviews s k)) [1..review_seq s]"

text \<open>\<^verbatim>\<open>Book.objects.create(**validated_data)\<close>: the row gets the next key.\<close>

definition Book_objects_create :: "book \<Rightarrow> store \<Rightarrow> int \<times> store" where
  "Book_objects_create b s =
     (let k = book_seq s + 1 in (k, s\<lparr>books := (books s)(k \<mapsto> b), book_seq := k\<rparr>))"

text \<open>\<^verbatim>\<open>instance.save()\<close> on a row that has a key.\<close>

definition Book_save :: "int \<Rightarrow> book \<Rightarrow> store \<Rightarrow> store" where
  "Book_save k b s = s\<lparr>books := (books s)(k \<mapsto> b)\<rparr>"

text \<open>
  \<^verbatim>\<open>book.delete()\<close>: the row goes, and with \<^verbatim>\<open>on_delete = models.CASCADE\<close> so does
  every review whose \<^verbatim>\<open>book\<close> is this key.
\<close>

definition Book_delete :: "int \<Rightarrow> store \<Rightarrow> store" where
  "Book_delete k s =
     s\<lparr>books := (books s)(k := None),
       reviews := (\<lambda>rid. case reviews s rid of
                     None \<Rightarrow> None
                   | Some r \<Rightarrow> if book_id r = k then None else Some r)\<rparr>"

section \<open>Serialization layer (\<^verbatim>\<open>apis/serializers.py\<close>)\<close>

text \<open>
  \<^verbatim>\<open>BookSerializer\<close> and \<^verbatim>\<open>ReviewSerializer\<close> are model serializers over all
  fields. The framework derives one serializer field per model field and validates a
  field mapping field by field, collecting for each field the codes of the checks that
  failed. A value absent from the mapping is \<open>None\<close>.
\<close>

datatype field_error =
    Err_required
  | Err_null
  | Err_blank
  | Err_invalid
  | Err_max_length
  | Err_null_characters_not_allowed
  | Err_max_string_length
  | Err_max_value
  | Err_min_value
  | Err_does_not_exist
  | Err_incorrect_type

type_synonym error_dict = "(string \<times> field_error list) list"

text \<open>\<^verbatim>\<open>Field.run_validators\<close>: every validator runs, and all their errors are raised together.\<close>

definition run_validators :: "('a \<Rightarrow> field_error list) \<Rightarrow> 'a \<Rightarrow> field_error list + 'a" where
  "run_validators vs v = (if vs v = [] then Inr v else Inl (vs v))"

text \<open>
  A character field (\<^verbatim>\<open>max_length\<close> given or not): blank after trimming is refused,
  strings are trimmed, integers are written in decimal, booleans and composites are
  refused; then the length and the null-character validators run.
\<close>

definition CharField_validators :: "nat option \<Rightarrow> string \<Rightarrow> field_error list" where
  "CharField_validators max_length v =
     (case max_length of
        None \<Rightarrow> []
      | Some n \<Rightarrow> if n < length v then [Err_max_length] else [])
     @ (if CHR 0x00 \<in> set v then [Err_null_characters_not_allowed] else [])"

definition CharField_run_validation :: "nat option \<Rightarrow> json option \<Rightarrow> field_error list + string" where
  "CharField_run_validation max_length data =
     (case data of
        None \<Rightarrow> Inl [Err_required]
      | Some JNull \<Rightarrow> Inl [Err_null]
      | Some (JStr s) \<Rightarrow>
          if strip s = [] then Inl [Err_blank]
          else run_validators (CharField_validators max_length) (strip s)
      | Some (JInt n) \<Rightarrow> run_validators (CharField_validators max_length) (str_int n)
      | Some _ \<Rightarrow> Inl [Err_invalid])"

text \<open>A date field: only a string that \<open>parse_date\<close> accepts is valid.\<close>

definition DateField_run_validation :: "json option \<Rightarrow> field_error list + date" where
  "DateField_run_validation data =
     (case data of
        None \<Rightarrow> Inl [Err_required]
      | Some JNull \<Rightarrow> Inl [Err_null]
      | Some (JStr s) \<Rightarrow> (case parse_date s of None \<Rightarrow> Inl [Err_invalid] | Some d \<Rightarrow> Inr d)
      | Some _ \<Rightarrow> Inl [Err_invalid])"

text \<open>
  An integer field. The model's \<^verbatim>\<open>MinValueValidator\<close> and \<^verbatim>\<open>MaxValueValidator\<close>
  become its \<^verbatim>\<open>min_value\<close> and \<^verbatim>\<open>max_value\<close>. A string is read as an integer after
  \<^verbatim>\<open>re.sub(r'\.0*\s*$', '', s)\<close> has cut a final point, zeros and whitespace.
\<close>

definition re_decimal_sub :: "string \<Rightarrow> string" where
  "re_decimal_sub s =
     (case dropWhile (\<lambda>c. c = CHR ''0'') (dropWhile is_space (rev s)) of
        [] \<Rightarrow> s
      | c # r \<Rightarrow> if c = CHR ''.'' then rev r else s)"

definition IntegerField_validators :: "int option \<Rightarrow> int option \<Rightarrow> int \<Rightarrow> field_error list" where
  "IntegerField_validators min_value max_value n =
     (case max_value of None \<Rightarrow> [] | Some hi \<Rightarrow> if hi < n then [Err_max_value] else [])
     @ (case min_value of None \<Rightarrow> [] | Some lo \<Rightarrow> if n < lo then [Err_min_value] else [])"

definition IntegerField_run_validation ::
    "int option \<Rightarrow> int option \<Rightarrow> json option \<Rightarrow> field_error list + int" where
  "IntegerField_run_validation min_value max_value data =
     (case data of
        None \<Rightarrow> Inl [Err_required]
      | Some JNull \<Rightarrow> Inl [Err_null]
      | Some (JInt n) \<Rightarrow> run_validators (IntegerField_validators min_value max_value) n
      | Some (JStr s) \<Rightarrow>
          if 1000 < length s then Inl [Err_max_string_length]
          else (case py_int (re_decimal_sub s) of
                  None \<Rightarrow> Inl [Err_invalid]
                | Some n \<Rightarrow> run_validators (IntegerField_validators min_value max_value) n)
      | Some _ \<Rightarrow> Inl [Err_invalid])"

text \<open>
  The related field of a foreign key: the value must be the key of a row of the
  queryset, here given by its membership test.
\<close>

definition PrimaryKeyRelatedField_run_validation ::
    "(int \<Rightarrow> bool) \<Rightarrow> json option \<Rightarrow> field_error list + int" where
  "PrimaryKeyRelatedField_run_validation queryset data =
     (case data of
        None \<Rightarrow> Inl [Err_required]
      | Some JNull \<Rightarrow> Inl [Err_null]
      | Some (JInt k) \<Rightarrow> if queryset k then Inr k else Inl [Err_does_not_exist]
      | Some (JStr s) \<Rightarrow>
          if s = [] then Inl [Err_null]
          else (case py_int s of
                  None \<Rightarrow> Inl [Err_incorrect_type]
                | Some k \<Rightarrow> if queryset k then Inr k else Inl [Err_does_not_exist])
      | Some _ \<Rightarrow> Inl [Err_incorrect_type])"

definition field_errors :: "string \<Rightarrow> field_error list + 'a \<Rightarrow> error_dict" where
  "field_errors name r = (case r of Inl e \<Rightarrow> [(name, e)] | Inr _ \<Rightarrow> [])"

subsection \<open>\<^verbatim>\<open>BookSerializer\<close>\<close>

text \<open>
  \<^verbatim>\<open>run_validation\<close> of the book serializer: \<^verbatim>\<open>id\<close> is read-only and ignored on
  input; \<^verbatim>\<open>title\<close>, \<^verbatim>\<open>author\<close> and \<^verbatim>\<open>published_date\<close> are required. The result
  is the validated data or the errors of every failing field, in field order.
\<close>

definition BookSerializer_run_validation :: "payload \<Rightarrow> error_dict + book" where
  "BookSerializer_run_validation d =
     (let t = CharField_run_validation (Some 255) (d ''title'');
          a = CharField_run_validation (Some 255) (d ''author'');
          p = DateField_run_validation (d ''published_date'')
      in case (t, a, p) of
           (Inr t', Inr a', Inr p') \<Rightarrow> Inr \<lparr>title = t', author = a', published_date = p'\<rparr>
         | _ \<Rightarrow> Inl (field_errors ''title'' t @ field_errors ''author'' a
                     @ field_errors ''published_date'' p))"

text \<open>
  A serializer object: the instance it was built on (if any), the data it was given
  (if any), and what \<^verbatim>\<open>is_valid()\<close> left behind.
\<close>

record BookSerializer =
  inst :: "(int \<times> book) option"
  initial_data :: "payload option"
  validated_data :: "book option"
  errors :: error_dict

definition BookSerializer_init :: "(int \<times> book) option \<Rightarrow> payload option \<Rightarrow> BookSerializer" where
  "BookSerializer_init i d =
     \<lparr>inst = i, initial_data = d, validated_data = None, errors = []\<rparr>"

text \<open>
  \<^verbatim>\<open>serializer.is_valid()\<close>. Without data the framework refuses the call by an
  assertion; no handler here does that.
\<close>

definition is_valid :: "BookSerializer \<Rightarrow> bool \<times> BookSerializer" where
  "is_valid ser =
     (case initial_data ser of
        None \<Rightarrow> (False, ser)
      | Some d \<Rightarrow>
          (case BookSerializer_run_validation d of
             Inl e \<Rightarrow> (False, ser\<lparr>validated_data := None, errors := e\<rparr>)
           | Inr v \<Rightarrow> (True, ser\<lparr>validated_data := Some v, errors := []\<rparr>)))"

text \<open>
  \<^verbatim>\<open>serializer.save()\<close>: without an instance the validated data is inserted as a new
  row; with one, each validated attribute is set on the instance, which is then saved
  under its key.
\<close>

definition save :: "BookSerializer \<Rightarrow> store \<Rightarrow> BookSerializer \<times> store" where
  "save ser s =
     (case validated_data ser of
        None \<Rightarrow> (ser, s)
      | Some v \<Rightarrow>
          (case inst ser of
             None \<Rightarrow>
               (let (k, s') = Book_objects_create v s in (ser\<lparr>inst := Some (k, v)\<rparr>, s'))
           | Some (k, old) \<Rightarrow>
               (let b = old\<lparr>title := title v, author := author v,
                             published_date := published_date v\<rparr>
                in (ser\<lparr>inst := Some (k, b)\<rparr>, Book_save k b s))))"

definition to_representation :: "int \<times> book \<Rightarrow> (string \<times> json) list" where
  "to_representation i =
     [(''id'', JInt (fst i)), (''title'', JStr (title (snd i))),
      (''author'', JStr (author (snd i))),
      (''published_date'', JStr (isoformat (published_date (snd i))))]"

text \<open>
  \<^verbatim>\<open>get_initial()\<close>: of the data given, the entries of the writable fields, as they
  were submitted.
\<close>

definition get_initial :: "BookSerializer \<Rightarrow> (string \<times> json) list" where
  "get_initial ser =
     (case initial_data ser of
        None \<Rightarrow> [(''title'', JStr []), (''author'', JStr []), (''published_date'', JNull)]
      | Some d \<Rightarrow>
          List.map_filter (\<lambda>f. map_option (Pair f) (d f))
            [''title'', ''author'', ''published_date''])"

text \<open>
  The \<^verbatim>\<open>serializer.data\<close> property: the representation of the instance when there is
  one and no error; the representation of the validated data when there is no instance
  and no error; otherwise \<^verbatim>\<open>get_initial()\<close>.
\<close>

definition serializer_data :: "BookSerializer \<Rightarrow> (string \<times> json) list" where
  "serializer_data ser =
     (case (inst ser, validated_data ser, errors ser) of
        (Some i, _, []) \<Rightarrow> to_representation i
      | (None, Some v, []) \<Rightarrow>
          [(''title'', JStr (title v)), (''author'', JStr (author v)),
           (''published_date'', JStr (isoformat (published_date v)))]
      | _ \<Rightarrow> get_initial ser)"

subsection \<open>\<^verbatim>\<open>ReviewSerializer\<close>\<close>

text \<open>
  \<^verbatim>\<open>id\<close> and \<^verbatim>\<open>created_at\<close> (\<^verbatim>\<open>auto_now_add\<close>) are read-only. \<^verbatim>\<open>book\<close> must be the
  key of a stored book, \<^verbatim>\<open>reviewer\<close> is a \<^verbatim>\<open>CharField(max_length=100)\<close>, \<^verbatim>\<open>text\<close>
  a \<^verbatim>\<open>TextField\<close>, and \<^verbatim>\<open>rating\<close> an integer with
  \<^verbatim>\<open>MinValueValidator(1)\<close> and \<^verbatim>\<open>MaxValueValidator(5)\<close>. The errors come in the
  order of the serializer's fields, in which the foreign key is last.
\<close>

record review_data =
  vd_book :: int
  vd_reviewer :: string
  vd_text :: string
  vd_rating :: int

definition ReviewSerializer_run_validation :: "store \<Rightarrow> payload \<Rightarrow> error_dict + review_data" where
  "ReviewSerializer_run_validation s d =
     (let b = PrimaryKeyRelatedField_run_validation (\<lambda>k. books s k \<noteq> None) (d ''book'');
          r = CharField_run_validation (Some 100) (d ''reviewer'');
          t = CharField_run_validation None (d ''text'');
          g = IntegerField_run_validation (Some 1) (Some 5) (d ''rating'')
      in case (b, r, t, g) of
           (Inr b', Inr r', Inr t', Inr g') \<Rightarrow>
             Inr \<lparr>vd_book = b', vd_reviewer = r', vd_text = t', vd_rating = g'\<rparr>
         | _ \<Rightarrow> Inl (field_errors ''reviewer'' r @ field_errors ''text'' t
                     @ field_errors ''rating'' g @ field_errors ''book'' b))"

section \<open>Resource handlers (\<^verbatim>\<open>apis/views.py\<close>)\<close>

text \<open>
  A request carries its method, one of the four the handlers name, and
  \<^verbatim>\<open>request.data\<close>.
\<close>

datatype http_method = GET | POST | PUT | DELETE

record request =
  request_method :: http_method
  data :: payload

text \<open>
  A response body: nothing (\<^verbatim>\<open>Response(status=...)\<close>), one serialized dictionary, a
  list of them, the serializer's error dictionary, or the \<^verbatim>\<open>detail\<close> of a framework
  exception.
\<close>

datatype api_exception = NotFound | MethodNotAllowed

datatype body =
    NoContent
  | Dict "(string \<times> json) list"
  | DictList "(string \<times> json) list list"
  | ErrorDict error_dict
  | Detail api_exception

record response =
  resp_data :: body
  status :: nat

abbreviation HTTP_200_OK :: nat where "HTTP_200_OK \<equiv> 200"
abbreviation HTTP_201_CREATED :: nat where "HTTP_201_CREATED \<equiv> 201"
abbreviation HTTP_204_NO_CONTENT :: nat where "HTTP_204_NO_CONTENT \<equiv> 204"
abbreviation HTTP_400_BAD_REQUEST :: nat where "HTTP_400_BAD_REQUEST \<equiv> 400"
abbreviation HTTP_404_NOT_FOUND :: nat where "HTTP_404_NOT_FOUND \<equiv> 404"
abbreviation HTTP_405_METHOD_NOT_ALLOWED :: nat where "HTTP_405_METHOD_NOT_ALLOWED \<equiv> 405"
abbreviation HTTP_500_INTERNAL_SERVER_ERROR :: nat where "HTTP_500_INTERNAL_SERVER_ERROR \<equiv> 500"

definition Response :: "body \<Rightarrow> nat \<Rightarrow> response" where
  "Response d st = \<lparr>resp_data = d, status = st\<rparr>"

text \<open>
  The framework's exception handler: \<^verbatim>\<open>Http404\<close> is answered as its \<^verbatim>\<open>NotFound\<close>
  exception, and an exception of the framework by its status and its detail.
\<close>

datatype exc = Http404 | APIException api_exception

definition exception_handler :: "exc \<Rightarrow> response" where
  "exception_handler e =
     (case (case e of Http404 \<Rightarrow> NotFound | APIException a \<Rightarrow> a) of
        NotFound \<Rightarrow> Response (Detail NotFound) HTTP_404_NOT_FOUND
      | MethodNotAllowed \<Rightarrow> Response (Detail MethodNotAllowed) HTTP_405_METHOD_NOT_ALLOWED)"

text \<open>
  A handler that returns no response at all (a Python function falling off its end) is
  a server error.
\<close>

definition no_response :: response where
  "no_response = Response NoContent HTTP_500_INTERNAL_SERVER_ERROR"

subsection \<open>Function based views\<close>

text \<open>\<^verbatim>\<open>@api_view([...])\<close>: a method outside the list is refused before the function runs.\<close>

definition api_view ::
    "http_method list \<Rightarrow> (request \<Rightarrow> store \<Rightarrow> response \<times> store) \<Rightarrow> request \<Rightarrow> store
     \<Rightarrow> response \<times> store" where
  "api_view http_method_names f request s =
     (if request_method request \<in> set http_method_names then f request s
      else (exception_handler (APIException MethodNotAllowed), s))"

definition fbv_list_body :: "request \<Rightarrow> store \<Rightarrow> response \<times> store" where
  "fbv_list_body request s =
     (if request_method request = GET then
        (Response (DictList (map to_representation (Book_objects_all s))) HTTP_200_OK, s)
      else if request_method request = POST then
        (let serializer = BookSerializer_init None (Some (data request));
             (ok, serializer) = is_valid serializer
         in if ok then
              (let (serializer, s') = save serializer s
               in (Response (Dict (serializer_data serializer)) HTTP_201_CREATED, s'))
            else (Response (Dict (serializer_data serializer)) HTTP_400_BAD_REQUEST, s))
      else (no_response, s))"

definition fbv_list :: "request \<Rightarrow> store \<Rightarrow> response \<times> store" where
  "fbv_list = api_view [GET, POST] fbv_list_body"

definition fbv_pk_body :: "int \<Rightarrow> request \<Rightarrow> store \<Rightarrow> response \<times> store" where
  "fbv_pk_body pk request s =
     (case Book_objects_get pk s of
        None \<Rightarrow> (Response NoContent HTTP_404_NOT_FOUND, s)
      | Some book \<Rightarrow>
          if request_method request = GET then
            (let serializer = BookSerializer_init (Some book) None
             in (Response (Dict (serializer_data serializer)) HTTP_200_OK, s))
          else if request_method request = PUT then
            (let serializer = BookSerializer_init (Some book) (Some (data request));
                 (ok, serializer) = is_valid serializer
             in if ok then
                  (let (serializer, s') = save serializer s
                   in (Response (Dict (serializer_data serializer)) HTTP_200_OK, s'))
                else (Response (ErrorDict (errors serializer)) HTTP_400_BAD_REQUEST, s))
          else if request_method request = DELETE then
            (Response NoContent HTTP_204_NO_CONTENT, Book_delete (fst book) s)
          else (no_response, s))"

definition fbv_pk :: "request \<Rightarrow> int \<Rightarrow> store \<Rightarrow> response \<times> store" where
  "fbv_pk request pk = api_view [GET, PUT, DELETE] (fbv_pk_body pk) request"

subsection \<open>Class based views\<close>

text \<open>
  A method of the class either returns a response and the store, or raises. The
  dispatcher picks the method named after the HTTP method and answers an exception
  through the exception handler; the store is then as the request found it.
\<close>

definition dispatch ::
    "(http_method \<Rightarrow> (request \<Rightarrow> store \<Rightarrow> exc + response \<times> store) option) \<Rightarrow> request \<Rightarrow> store
     \<Rightarrow> response \<times> store" where
  "dispatch handlers request s =
     (case (case handlers (request_method request) of
              None \<Rightarrow> Inl (APIException MethodNotAllowed)
            | Some handler \<Rightarrow> handler request s) of
        Inl e \<Rightarrow> (exception_handler e, s)
      | Inr r \<Rightarrow> r)"

definition cbv_list_get :: "request \<Rightarrow> store \<Rightarrow> exc + response \<times> store" where
  "cbv_list_get request s =
     Inr (Response (DictList (map to_representation (Book_objects_all s))) HTTP_200_OK, s)"

definition cbv_list_post :: "request \<Rightarrow> store \<Rightarrow> exc + response \<times> store" where
  "cbv_list_post request s =
     (let serializer = BookSerializer_init None (Some (data request));
          (ok, serializer) = is_valid serializer
      in if ok then
           (let (serializer, s') = save serializer s
            in Inr (Response (Dict (serializer_data serializer)) HTTP_201_CREATED, s'))
         else Inr (Response (Dict (serializer_data serializer)) HTTP_400_BAD_REQUEST, s))"

definition cbv_list :: "request \<Rightarrow> store \<Rightarrow> response \<times> store" where
  "cbv_list =
     dispatch (\<lambda>m. case m of GET \<Rightarrow> Some cbv_list_get | POST \<Rightarrow> Some cbv_list_post | _ \<Rightarrow> None)"

definition cbv_pk_get_object :: "int \<Rightarrow> store \<Rightarrow> exc + int \<times> book" where
  "cbv_pk_get_object pk s =
     (case Book_objects_get pk s of None \<Rightarrow> Inl Http404 | Some book \<Rightarrow> Inr book)"

definition cbv_pk_get :: "int \<Rightarrow> request \<Rightarrow> store \<Rightarrow> exc + response \<times> store" where
  "cbv_pk_get pk request s =
     (case cbv_pk_get_object pk s of
        Inl e \<Rightarrow> Inl e
      | Inr book \<Rightarrow>
          (let serializer = BookSerializer_init (Some book) None
           in Inr (Response (Dict (serializer_data serializer)) HTTP_200_OK, s)))"

definition cbv_pk_put :: "int \<Rightarrow> request \<Rightarrow> store \<Rightarrow> exc + response \<times> store" where
  "cbv_pk_put pk request s =
     (case cbv_pk_get_object pk s of
        Inl e \<Rightarrow> Inl e
      | Inr book \<Rightarrow>
          (let serializer = BookSerializer_init (Some book) (Some (data request));
               (ok, serializer) = is_valid serializer
           in if ok then
                (let (serializer, s') = save serializer s
                 in Inr (Response (Dict (serializer_data serializer)) HTTP_200_OK, s'))
              else Inr (Response (ErrorDict (errors serializer)) HTTP_400_BAD_REQUEST, s)))"

definition cbv_pk_delete :: "int \<Rightarrow> request \<Rightarrow> store \<Rightarrow> exc + response \<times> store" where
  "cbv_pk_delete pk request s =
     (case cbv_pk_get_object pk s of
        Inl e \<Rightarrow> Inl e
      | Inr book \<Rightarrow> Inr (Response NoContent HTTP_204_NO_CONTENT, Book_delete (fst book) s))"

definition cbv_pk :: "request \<Rightarrow> int \<Rightarrow> store \<Rightarrow> response \<times> store" where
  "cbv_pk request pk =
     dispatch (\<lambda>m. case m of GET \<Rightarrow> Some (cbv_pk_get pk) | PUT \<Rightarrow> Some (cbv_pk_put pk)
                  | DELETE \<Rightarrow> Some (cbv_pk_delete pk) | _ \<Rightarrow> None) request"

subsection \<open>Routes (\<^verbatim>\<open>apis/urls.py\<close>)\<close>

text \<open>
  The four routes of the function based and the class based handlers. The
  \<^verbatim>\<open><int:pk>\<close> converter only matches a natural number.
\<close>

datatype route = Rest_fbv_list | Rest_fbv_pk nat | Rest_cbv_list | Rest_cbv_pk nat

definition urlpatterns :: "route \<Rightarrow> request \<Rightarrow> store \<Rightarrow> response \<times> store" where
  "urlpatterns r request =
     (case r of
        Rest_fbv_list \<Rightarrow> fbv_list request
      | Rest_fbv_pk pk \<Rightarrow> fbv_pk request (int pk)
      | Rest_cbv_list \<Rightarrow> cbv_list request
      | Rest_cbv_pk pk \<Rightarrow> cbv_pk request (int pk))"

text \<open>Serving a sequence of requests, one after the other.\<close>

fun serve :: "(route \<times> request) list \<Rightarrow> store \<Rightarrow> store" where
  "serve [] s = s"
| "serve (rq # rqs) s = serve rqs (snd (urlpatterns (fst rq) (snd rq) s))"

text \<open>Referential integrity: the book of every stored review is a stored book.\<close>

definition referential_integrity :: "store \<Rightarrow> bool" where
  "referential_integrity s =
     (\<forall>rid r. reviews s rid = Some r \<longrightarrow> books s (book_id r) \<noteq> None)"

section \<open>Payloads in normal form\<close>





definition same_fields :: "payload \<Rightarrow> book \<Rightarrow> bool" where
  "same_fields d v =
     (d ''title'' = Some (JStr (title v)) \<and> d ''author'' = Some (JStr (author v))
      \<and> d ''published_date'' = Some (JStr (isoformat (published_date v))))"

section \<open>Example data\<close>

definition empty_store :: store where
  "empty_store = \<lparr>books = Map.empty, reviews = Map.empty, book_seq = 0, review_seq = 0\<rparr>"

definition dune :: book where
  "dune = \<lparr>title = ''Dune'', author = ''Frank Herbert'',
           published_date = \<lparr>year = 1965, month = 6, day = 1\<rparr>\<rparr>"

definition emma :: book where
  "emma = \<lparr>title = ''Emma'', author = ''Jane Austen'',
           published_date = \<lparr>year = 1815, month = 12, day = 23\<rparr>\<rparr>"

text \<open>Two books with one review each.\<close>

definition library :: store where
  "library =
     \<lparr>books = map_of [(1, dune), (2, emma)],
      reviews = map_of
        [(1, \<lparr>book_id = 1, reviewer = ''Alice'', review_text = ''Great'', rating = 5,
              created_at = 0\<rparr>),
         (2, \<lparr>book_id = 2, reviewer = ''Bob'', review_text = ''Witty'', rating = 4,
              created_at = 1\<rparr>)],
      book_seq = 2, review_seq = 2\<rparr>"

text \<open>The request body \<^verbatim>\<open>{"title": ""}\<close>.\<close>

definition blank_title :: payload where
  "blank_title = map_of [(''title'', JStr [])]"

text \<open>
  The bodies \<^verbatim>\<open>{"title": "Dune", "author": "Frank Herbert", "published_date": "1965-06-01"}\<close>,
  the same with the title \<^verbatim>\<open>" Dune"\<close>, and a review of book 1 without its rating.
\<close>

definition dune_payload :: payload where
  "dune_payload =
     map_of [(''title'', JStr ''Dune''), (''author'', JStr ''Frank Herbert''),
             (''published_date'', JStr ''1965-06-01'')]"


definition alice_payload :: payload where
  "alice_payload =
     map_of [(''book'', JInt 1), (''reviewer'', JStr ''Alice''), (''text'', JStr ''Great'')]"

section \<open>What each handler does\<close>

lemmas view_defs =
  fbv_list_def fbv_pk_def api_view_def fbv_list_body_def fbv_pk_body_def
  cbv_list_def cbv_pk_def dispatch_def cbv_list_get_def cbv_list_post_def
  cbv_pk_get_object_def cbv_pk_get_def cbv_pk_put_def cbv_pk_delete_def
  exception_handler_def Book_objects_get_def

lemma run_validation_errors_nonempty:
  "BookSerializer_run_validation d = Inl e \<Longrightarrow> e \<noteq> []"
  by (auto simp: BookSerializer_run_validation_def field_errors_def Let_def split: sum.splits)

lemma is_valid_invalid:
  "BookSerializer_run_validation d = Inl e \<Longrightarrow>
   is_valid (BookSerializer_init i (Some d)) =
     (False, \<lparr>inst = i, initial_data = Some d, validated_data = None, errors = e\<rparr>)"
  by (simp add: is_valid_def BookSerializer_init_def)

lemma is_valid_valid:
  "BookSerializer_run_validation d = Inr v \<Longrightarrow>
   is_valid (BookSerializer_init i (Some d)) =
     (True, \<lparr>inst = i, initial_data = Some d, validated_data = Some v, errors = []\<rparr>)"
  by (simp add: is_valid_def BookSerializer_init_def)

lemma serializer_data_invalid:
  "e \<noteq> [] \<Longrightarrow>
   serializer_data \<lparr>inst = i, initial_data = Some d, validated_data = None, errors = e\<rparr> =
     List.map_filter (\<lambda>f. map_option (Pair f) (d f)) [''title'', ''author'', ''published_date'']"
  by (cases e; cases i) (simp_all add: serializer_data_def get_initial_def)

lemma setattr_all_fields:
  "old\<lparr>title := title v, author := author v, published_date := published_date v\<rparr> = (v :: book)"
  by (cases old, cases v) simp

text \<open>Create with a valid and with an invalid field mapping.\<close>

lemma create_valid:
  assumes "BookSerializer_run_validation d = Inr v"
  shows "fbv_list \<lparr>request_method = POST, data = d\<rparr> s =
           (Response (Dict (to_representation (book_seq s + 1, v))) HTTP_201_CREATED,
            s\<lparr>books := (books s)(book_seq s + 1 \<mapsto> v), book_seq := book_seq s + 1\<rparr>)"
    and "cbv_list \<lparr>request_method = POST, data = d\<rparr> s =
           (Response (Dict (to_representation (book_seq s + 1, v))) HTTP_201_CREATED,
            s\<lparr>books := (books s)(book_seq s + 1 \<mapsto> v), book_seq := book_seq s + 1\<rparr>)"
  by (simp_all add: view_defs is_valid_valid [OF assms] save_def Book_objects_create_def
      serializer_data_def Let_def)

lemma create_invalid:
  assumes "BookSerializer_run_validation d = Inl e"
  shows "fbv_list \<lparr>request_method = POST, data = d\<rparr> s =
           (Response (Dict (List.map_filter (\<lambda>f. map_option (Pair f) (d f))
              [''title'', ''author'', ''published_date''])) HTTP_400_BAD_REQUEST, s)"
    and "cbv_list \<lparr>request_method = POST, data = d\<rparr> s =
           (Response (Dict (List.map_filter (\<lambda>f. map_option (Pair f) (d f))
              [''title'', ''author'', ''published_date''])) HTTP_400_BAD_REQUEST, s)"
  using run_validation_errors_nonempty [OF assms]
  by (simp_all add: view_defs is_valid_invalid [OF assms] serializer_data_invalid)

text \<open>Update of a stored book with a valid and with an invalid field mapping.\<close>

lemma update_valid:
  assumes "books s k = Some old" and "BookSerializer_run_validation d = Inr v"
  shows "fbv_pk \<lparr>request_method = PUT, data = d\<rparr> k s =
           (Response (Dict (to_representation (k, v))) HTTP_200_OK,
            s\<lparr>books := (books s)(k \<mapsto> v)\<rparr>)"
    and "cbv_pk \<lparr>request_method = PUT, data = d\<rparr> k s =
           (Response (Dict (to_representation (k, v))) HTTP_200_OK,
            s\<lparr>books := (books s)(k \<mapsto> v)\<rparr>)"
  using assms(1)
  by (simp_all add: view_defs is_valid_valid [OF assms(2)] save_def Book_save_def
      serializer_data_def Let_def setattr_all_fields)

lemma update_invalid:
  assumes "books s k = Some old" and "BookSerializer_run_validation d = Inl e"
  shows "fbv_pk \<lparr>request_method = PUT, data = d\<rparr> k s =
           (Response (ErrorDict e) HTTP_400_BAD_REQUEST, s)"
    and "cbv_pk \<lparr>request_method = PUT, data = d\<rparr> k s =
           (Response (ErrorDict e) HTTP_400_BAD_REQUEST, s)"
  using assms(1)
  by (simp_all add: view_defs is_valid_invalid [OF assms(2)])

text \<open>Retrieve and Delete of a stored book, and the three item operations on a missing key.\<close>

lemma retrieve_found:
  assumes "books s k = Some b"
  shows "fbv_pk \<lparr>request_method = GET, data = d\<rparr> k s =
           (Response (Dict (to_representation (k, b))) HTTP_200_OK, s)"
    and "cbv_pk \<lparr>request_method = GET, data = d\<rparr> k s =
           (Response (Dict (to_representation (k, b))) HTTP_200_OK, s)"
  using assms
  by (simp_all add: view_defs BookSerializer_init_def serializer_data_def)

lemma delete_found:
  assumes "books s k = Some b"
  shows "fbv_pk \<lparr>request_method = DELETE, data = d\<rparr> k s =
           (Response NoContent HTTP_204_NO_CONTENT, Book_delete k s)"
    and "cbv_pk \<lparr>request_method = DELETE, data = d\<rparr> k s =
           (Response NoContent HTTP_204_NO_CONTENT, Book_delete k s)"
  using assms
  by (simp_all add: view_defs)

lemma item_missing:
  assumes "books s k = None" and "m \<in> {GET, PUT, DELETE}"
  shows "fbv_pk \<lparr>request_method = m, data = d\<rparr> k s = (Response NoContent HTTP_404_NOT_FOUND, s)"
    and "cbv_pk \<lparr>request_method = m, data = d\<rparr> k s =
           (Response (Detail NotFound) HTTP_404_NOT_FOUND, s)"
  using assms
  by (auto simp add: view_defs)

lemma blank_title_invalid:
  "BookSerializer_run_validation blank_title =
     Inl [(''title'', [Err_blank]), (''author'', [Err_required]),
          (''published_date'', [Err_required])]"
  by (simp add: blank_title_def BookSerializer_run_validation_def CharField_run_validation_def
      DateField_run_validation_def field_errors_def strip_def)

section \<open>What validation returns\<close>

text \<open>Splitting a string at a character loses nothing.\<close>

lemma split_on_nonempty: "split_on c xs \<noteq> []"
  by (induction xs) (auto split: list.splits)

lemma split_on_join:
  "split_on c xs = p # ps \<Longrightarrow> xs = p @ concat (map ((#) c) ps)"
proof (induction xs arbitrary: p ps)
  case Nil
  then show ?case by simp
next
  case (Cons x xs)
  obtain q qs where q: "split_on c xs = q # qs"
    using split_on_nonempty [of c xs] by (cases "split_on c xs") auto
  have xs: "xs = q @ concat (map ((#) c) qs)"
    by (rule Cons.IH [OF q])
  show ?case
  proof (cases "x = c")
    case True
    with Cons.prems q have "p = []" "ps = q # qs" by simp_all
    with True xs show ?thesis by simp
  next
    case False
    with Cons.prems q have "p = x # q" "ps = qs" by simp_all
    with xs show ?thesis by simp
  qed
qed




























lemma dune_payload_same: "same_fields dune_payload dune"
  by code_simp



lemma rating_field:
  "IntegerField_run_validation (Some 1) (Some 5) (Some (JInt r)) =
     (if 5 < r then Inl [Err_max_value] else if r < 1 then Inl [Err_min_value] else Inr r)"
  by (simp add: IntegerField_run_validation_def IntegerField_validators_def run_validators_def)

lemma review_fields_other:
  "(d(''rating'' \<mapsto> j)) ''book'' = d ''book''"
  "(d(''rating'' \<mapsto> j)) ''reviewer'' = d ''reviewer''"
  "(d(''rating'' \<mapsto> j)) ''text'' = d ''text''"
  "(d(''rating'' \<mapsto> j)) ''rating'' = Some j"
  by simp_all

lemma alice_fields:
  "PrimaryKeyRelatedField_run_validation (\<lambda>k. books library k \<noteq> None) (alice_payload ''book'')
     = Inr 1"
  "CharField_run_validation (Some 100) (alice_payload ''reviewer'') = Inr ''Alice''"
  "CharField_run_validation None (alice_payload ''text'') = Inr ''Great''"
  by (simp_all add: alice_payload_def PrimaryKeyRelatedField_run_validation_def library_def
      CharField_run_validation_def run_validators_def CharField_validators_def strip_def
      is_space_def)

section \<open>What delete and the other handlers do to the store\<close>

lemma Book_delete_books: "books (Book_delete k s) = (books s)(k := None)"
  by (simp add: Book_delete_def)

lemma Book_delete_reviews:
  "reviews (Book_delete k s) rid =
     (case reviews s rid of None \<Rightarrow> None | Some r \<Rightarrow> if book_id r = k then None else Some r)"
  by (simp add: Book_delete_def)

lemma Book_delete_seqs:
  "book_seq (Book_delete k s) = book_seq s" "review_seq (Book_delete k s) = review_seq s"
  by (simp_all add: Book_delete_def)

lemma collection_store:
  "snd (fbv_list rq s) = s
   \<or> (\<exists>v. snd (fbv_list rq s)
          = s\<lparr>books := (books s)(book_seq s + 1 \<mapsto> v), book_seq := book_seq s + 1\<rparr>)"
  "snd (cbv_list rq s) = s
   \<or> (\<exists>v. snd (cbv_list rq s)
          = s\<lparr>books := (books s)(book_seq s + 1 \<mapsto> v), book_seq := book_seq s + 1\<rparr>)"
proof -
  obtain m d where rq: "rq = \<lparr>request_method = m, data = d\<rparr>"
    by (cases rq) simp
  have "(snd (fbv_list rq s) = s
   \<or> (\<exists>v. snd (fbv_list rq s)
          = s\<lparr>books := (books s)(book_seq s + 1 \<mapsto> v), book_seq := book_seq s + 1\<rparr>))
   \<and> (snd (cbv_list rq s) = s
   \<or> (\<exists>v. snd (cbv_list rq s)
          = s\<lparr>books := (books s)(book_seq s + 1 \<mapsto> v), book_seq := book_seq s + 1\<rparr>))"
  proof (cases m)
    case POST
    show ?thesis
    proof (cases "BookSerializer_run_validation d")
      case (Inl e)
      show ?thesis
        unfolding rq POST by (simp add: create_invalid [OF Inl])
    next
      case (Inr v)
      show ?thesis
        unfolding rq POST create_valid [OF Inr] snd_conv by blast
    qed
  qed (simp_all add: rq view_defs)
  then show "snd (fbv_list rq s) = s
   \<or> (\<exists>v. snd (fbv_list rq s)
          = s\<lparr>books := (books s)(book_seq s + 1 \<mapsto> v), book_seq := book_seq s + 1\<rparr>)"
    and "snd (cbv_list rq s) = s
   \<or> (\<exists>v. snd (cbv_list rq s)
          = s\<lparr>books := (books s)(book_seq s + 1 \<mapsto> v), book_seq := book_seq s + 1\<rparr>)"
    by simp_all
qed

lemma item_store:
  "snd (fbv_pk rq k s) = s
   \<or> (\<exists>v. snd (fbv_pk rq k s) = s\<lparr>books := (books s)(k \<mapsto> v)\<rparr>)
   \<or> snd (fbv_pk rq k s) = Book_delete k s"
  "snd (cbv_pk rq k s) = s
   \<or> (\<exists>v. snd (cbv_pk rq k s) = s\<lparr>books := (books s)(k \<mapsto> v)\<rparr>)
   \<or> snd (cbv_pk rq k s) = Book_delete k s"
proof -
  obtain m d where rq: "rq = \<lparr>request_method = m, data = d\<rparr>"
    by (cases rq) simp
  have "(snd (fbv_pk rq k s) = s
   \<or> (\<exists>v. snd (fbv_pk rq k s) = s\<lparr>books := (books s)(k \<mapsto> v)\<rparr>)
   \<or> snd (fbv_pk rq k s) = Book_delete k s)
   \<and> (snd (cbv_pk rq k s) = s
   \<or> (\<exists>v. snd (cbv_pk rq k s) = s\<lparr>books := (books s)(k \<mapsto> v)\<rparr>)
   \<or> snd (cbv_pk rq k s) = Book_delete k s)"
  proof (cases "books s k")
    case None
    show ?thesis
    proof (cases "m = POST")
      case True
      then show ?thesis by (simp add: rq view_defs)
    next
      case False
      then have "m \<in> {GET, PUT, DELETE}" by (cases m) simp_all
      from item_missing [OF None this] show ?thesis by (simp add: rq)
    qed
  next
    case (Some b)
    show ?thesis
    proof (cases m)
      case GET
      show ?thesis unfolding rq GET by (simp add: retrieve_found [OF Some])
    next
      case POST
      then show ?thesis by (simp add: rq view_defs)
    next
      case PUT
      show ?thesis
      proof (cases "BookSerializer_run_validation d")
        case (Inl e)
        show ?thesis unfolding rq PUT by (simp add: update_invalid [OF Some Inl])
      next
        case (Inr v)
        show ?thesis unfolding rq PUT update_valid [OF Some Inr] snd_conv by blast
      qed
    next
      case DELETE
      show ?thesis unfolding rq DELETE by (simp add: delete_found [OF Some])
    qed
  qed
  then show "snd (fbv_pk rq k s) = s
   \<or> (\<exists>v. snd (fbv_pk rq k s) = s\<lparr>books := (books s)(k \<mapsto> v)\<rparr>)
   \<or> snd (fbv_pk rq k s) = Book_delete k s"
    and "snd (cbv_pk rq k s) = s
   \<or> (\<exists>v. snd (cbv_pk rq k s) = s\<lparr>books := (books s)(k \<mapsto> v)\<rparr>)
   \<or> snd (cbv_pk rq k s) = Book_delete k s"
    by simp_all
qed

lemma integrity_after_write:
  "referential_integrity s \<Longrightarrow> referential_integrity (s\<lparr>books := (books s)(k \<mapsto> v)\<rparr>)"
  "referential_integrity s \<Longrightarrow>
     referential_integrity (s\<lparr>books := (books s)(k \<mapsto> v), book_seq := n\<rparr>)"
  by (auto simp: referential_integrity_def)

lemma integrity_after_delete:
  "referential_integrity s \<Longrightarrow> referential_integrity (Book_delete k s)"
  by (auto simp: referential_integrity_def Book_delete_def split: option.splits if_splits)

lemma integrity_step:
  assumes "referential_integrity s"
  shows "referential_integrity (snd (urlpatterns r rq s))"
proof (cases r)
  case Rest_fbv_list
  with collection_store(1) [of rq s] integrity_after_write(2) [OF assms] show ?thesis
    by (auto simp: urlpatterns_def assms)
next
  case (Rest_fbv_pk k)
  with item_store(1) [of rq "int k" s] integrity_after_write(1) [OF assms]
    integrity_after_delete [OF assms]
  show ?thesis
    by (auto simp: urlpatterns_def assms)
next
  case Rest_cbv_list
  with collection_store(2) [of rq s] integrity_after_write(2) [OF assms] show ?thesis
    by (auto simp: urlpatterns_def assms)
next
  case (Rest_cbv_pk k)
  with item_store(2) [of rq "int k" s] integrity_after_write(1) [OF assms]
    integrity_after_delete [OF assms]
  show ?thesis
    by (auto simp: urlpatterns_def assms)
qed

lemma library_integrity: "referential_integrity library"
  by (auto simp: referential_integrity_def library_def split: if_splits)

section \<open>Validation\<close>

text \<open>
  C1. The claim: for every field mapping that fails validation, Create (POST on the
  collection) and Update (PUT on a stored book) each answer 400 with the field-level
  error details. Update does. Create does not: line 60 of \<^verbatim>\<open>views.py\<close> passes
  \<^verbatim>\<open>serializer.data\<close> where line 79 passes \<^verbatim>\<open>serializer.errors\<close>, so the body of
  the 400 holds the submitted values of the writable fields. For the body
  \<^verbatim>\<open>{"title": ""}\<close> validation finds a blank title and two missing fields; Create
  answers 400 with \<^verbatim>\<open>{"title": ""}\<close>, in the function based and in the class based
  handler, while Update of book 1 answers 400 with the three errors.
\<close>

theorem C1_create_invalid_answers_submitted_data:
  "BookSerializer_run_validation blank_title =
     Inl [(''title'', [Err_blank]), (''author'', [Err_required]),
          (''published_date'', [Err_required])]
   \<and> fbv_list \<lparr>request_method = POST, data = blank_title\<rparr> empty_store =
       (Response (Dict [(''title'', JStr [])]) HTTP_400_BAD_REQUEST, empty_store)
   \<and> cbv_list \<lparr>request_method = POST, data = blank_title\<rparr> empty_store =
       (Response (Dict [(''title'', JStr [])]) HTTP_400_BAD_REQUEST, empty_store)
   \<and> fbv_pk \<lparr>request_method = PUT, data = blank_title\<rparr> 1 library =
       (Response (ErrorDict [(''title'', [Err_blank]), (''author'', [Err_required]),
          (''published_date'', [Err_required])]) HTTP_400_BAD_REQUEST, library)"
proof -
  have b: "books library 1 = Some dune"
    by (simp add: library_def)
  have g: "List.map_filter (\<lambda>f. map_option (Pair f) (blank_title f))
             [''title'', ''author'', ''published_date''] = [(''title'', JStr [])]"
    by (simp add: List.map_filter_def blank_title_def)
  note c = create_invalid [OF blank_title_invalid, of empty_store, unfolded g]
  note u = update_invalid(1) [OF b blank_title_invalid]
  from blank_title_invalid c u show ?thesis
    by (intro conjI)
qed

text \<open>
  C2. For every integer rating \<open>r\<close>, validating a review payload whose rating is \<open>r\<close>
  with the review serializer fails when \<open>r\<close> is outside 1 to 5, with the error of the
  violated bound under \<^verbatim>\<open>rating\<close>, and succeeds with rating \<open>r\<close> when \<open>r\<close> is inside
  1 to 5 and the fields \<^verbatim>\<open>book\<close>, \<^verbatim>\<open>reviewer\<close> and \<^verbatim>\<open>text\<close> are valid. Validation
  returns errors or validated data and has no store to write to.
\<close>

theorem C2_rating_range:
  "(r < 1 \<or> 5 < r \<longrightarrow>
      (\<exists>e. ReviewSerializer_run_validation s (d(''rating'' \<mapsto> JInt r)) = Inl e
           \<and> (''rating'', if 5 < r then [Err_max_value] else [Err_min_value]) \<in> set e))
   \<and> (1 \<le> r \<and> r \<le> 5
        \<and> PrimaryKeyRelatedField_run_validation (\<lambda>k. books s k \<noteq> None) (d ''book'') = Inr b
        \<and> CharField_run_validation (Some 100) (d ''reviewer'') = Inr w
        \<and> CharField_run_validation None (d ''text'') = Inr t \<longrightarrow>
      ReviewSerializer_run_validation s (d(''rating'' \<mapsto> JInt r))
        = Inr \<lparr>vd_book = b, vd_reviewer = w, vd_text = t, vd_rating = r\<rparr>)"
proof (intro conjI impI)
  assume out: "r < 1 \<or> 5 < r"
  then have g: "IntegerField_run_validation (Some 1) (Some 5) (Some (JInt r))
                  = Inl (if 5 < r then [Err_max_value] else [Err_min_value])"
    by (auto simp: rating_field)
  show "\<exists>e. ReviewSerializer_run_validation s (d(''rating'' \<mapsto> JInt r)) = Inl e
           \<and> (''rating'', if 5 < r then [Err_max_value] else [Err_min_value]) \<in> set e"
    unfolding ReviewSerializer_run_validation_def review_fields_other g Let_def
    by (simp add: field_errors_def split: sum.splits)
next
  assume ok: "1 \<le> r \<and> r \<le> 5
        \<and> PrimaryKeyRelatedField_run_validation (\<lambda>k. books s k \<noteq> None) (d ''book'') = Inr b
        \<and> CharField_run_validation (Some 100) (d ''reviewer'') = Inr w
        \<and> CharField_run_validation None (d ''text'') = Inr t"
  then have g: "IntegerField_run_validation (Some 1) (Some 5) (Some (JInt r)) = Inr r"
    by (simp add: rating_field)
  from ok show "ReviewSerializer_run_validation s (d(''rating'' \<mapsto> JInt r))
        = Inr \<lparr>vd_book = b, vd_reviewer = w, vd_text = t, vd_rating = r\<rparr>"
    unfolding ReviewSerializer_run_validation_def review_fields_other g Let_def
    by simp
qed

theorem C2_rating_range_witness:
  "(\<exists>e. ReviewSerializer_run_validation library (alice_payload(''rating'' \<mapsto> JInt 6)) = Inl e
        \<and> (''rating'', [Err_max_value]) \<in> set e)
   \<and> (\<exists>e. ReviewSerializer_run_validation library (alice_payload(''rating'' \<mapsto> JInt 0)) = Inl e
        \<and> (''rating'', [Err_min_value]) \<in> set e)
   \<and> ReviewSerializer_run_validation library (alice_payload(''rating'' \<mapsto> JInt 5))
       = Inr \<lparr>vd_book = 1, vd_reviewer = ''Alice'', vd_text = ''Great'', vd_rating = 5\<rparr>"
proof -
  have 1: "\<exists>e. ReviewSerializer_run_validation library (alice_payload(''rating'' \<mapsto> JInt 6)) = Inl e
        \<and> (''rating'', [Err_max_value]) \<in> set e"
    using C2_rating_range [of 6 library alice_payload, THEN conjunct1] by simp
  have 2: "\<exists>e. ReviewSerializer_run_validation library (alice_payload(''rating'' \<mapsto> JInt 0)) = Inl e
        \<and> (''rating'', [Err_min_value]) \<in> set e"
    using C2_rating_range [of 0 library alice_payload, THEN conjunct1] by simp
  have 3: "ReviewSerializer_run_validation library (alice_payload(''rating'' \<mapsto> JInt 5))
       = Inr \<lparr>vd_book = 1, vd_reviewer = ''Alice'', vd_text = ''Great'', vd_rating = 5\<rparr>"
    using C2_rating_range [of 5 library alice_payload 1 "''Alice''" "''Great''", THEN conjunct2]
      alice_fields
    by simp
  from 1 2 3 show ?thesis
    by (intro conjI)
qed

text \<open>
  C6. Create and Update are atomic with respect to the store: for every field mapping
  that fails validation, the store after the failed Create or Update (on any key) is
  exactly the store before it, in both handler styles; in particular a following List
  sees the same books.
\<close>

theorem C6_failed_write_leaves_store:
  assumes "BookSerializer_run_validation d = Inl e"
  shows "snd (fbv_list \<lparr>request_method = POST, data = d\<rparr> s) = s
       \<and> snd (fbv_pk \<lparr>request_method = PUT, data = d\<rparr> k s) = s
       \<and> snd (cbv_list \<lparr>request_method = POST, data = d\<rparr> s) = s
       \<and> snd (cbv_pk \<lparr>request_method = PUT, data = d\<rparr> k s) = s
       \<and> Book_objects_all (snd (fbv_list \<lparr>request_method = POST, data = d\<rparr> s)) = Book_objects_all s
       \<and> Book_objects_all (snd (fbv_pk \<lparr>request_method = PUT, data = d\<rparr> k s)) = Book_objects_all s"
proof (cases "books s k")
  case None
  then show ?thesis
    using create_invalid [OF assms, of s] item_missing [of s k PUT d]
    by simp
next
  case (Some old)
  then show ?thesis
    using create_invalid [OF assms, of s] update_invalid [OF Some assms]
    by simp
qed

theorem C6_failed_write_leaves_store_witness:
  "snd (fbv_list \<lparr>request_method = POST, data = blank_title\<rparr> library) = library
   \<and> snd (fbv_pk \<lparr>request_method = PUT, data = blank_title\<rparr> 1 library) = library
   \<and> snd (cbv_list \<lparr>request_method = POST, data = blank_title\<rparr> library) = library
   \<and> snd (cbv_pk \<lparr>request_method = PUT, data = blank_title\<rparr> 1 library) = library
   \<and> Book_objects_all (snd (fbv_list \<lparr>request_method = POST, data = blank_title\<rparr> library))
       = Book_objects_all library
   \<and> Book_objects_all (snd (fbv_pk \<lparr>request_method = PUT, data = blank_title\<rparr> 1 library))
       = Book_objects_all library"
  using C6_failed_write_leaves_store [OF blank_title_invalid, of library 1]
  by simp

section \<open>Items\<close>

text \<open>
  C3. For every key \<open>k\<close> of a stored book, Delete on \<open>k\<close> answers 204 with an empty
  body, removes the book, and removes every review whose book is \<open>k\<close>: afterwards the
  key of such a review resolves to nothing. Both handler styles.
\<close>

theorem C3_delete_cascades:
  assumes "books s k = Some b"
  shows "fst (fbv_pk \<lparr>request_method = DELETE, data = d\<rparr> k s)
           = Response NoContent HTTP_204_NO_CONTENT
       \<and> books (snd (fbv_pk \<lparr>request_method = DELETE, data = d\<rparr> k s)) k = None
       \<and> (\<forall>rid r. reviews s rid = Some r \<and> book_id r = k
            \<longrightarrow> reviews (snd (fbv_pk \<lparr>request_method = DELETE, data = d\<rparr> k s)) rid = None)
       \<and> fst (cbv_pk \<lparr>request_method = DELETE, data = d\<rparr> k s)
           = Response NoContent HTTP_204_NO_CONTENT
       \<and> books (snd (cbv_pk \<lparr>request_method = DELETE, data = d\<rparr> k s)) k = None
       \<and> (\<forall>rid r. reviews s rid = Some r \<and> book_id r = k
            \<longrightarrow> reviews (snd (cbv_pk \<lparr>request_method = DELETE, data = d\<rparr> k s)) rid = None)"
  by (simp add: delete_found [OF assms] Book_delete_books Book_delete_reviews)

theorem C3_delete_cascades_witness:
  "books library 1 = Some dune
   \<and> fst (fbv_pk \<lparr>request_method = DELETE, data = blank_title\<rparr> 1 library)
       = Response NoContent HTTP_204_NO_CONTENT
   \<and> books (snd (fbv_pk \<lparr>request_method = DELETE, data = blank_title\<rparr> 1 library)) 1 = None
   \<and> map_option book_id (reviews library 1) = Some 1
   \<and> reviews (snd (fbv_pk \<lparr>request_method = DELETE, data = blank_title\<rparr> 1 library)) 1 = None
   \<and> reviews (snd (cbv_pk \<lparr>request_method = DELETE, data = blank_title\<rparr> 1 library)) 1 = None"
proof -
  have b: "books library 1 = Some dune"
    by (simp add: library_def)
  have r: "reviews library 1 = Some \<lparr>book_id = 1, reviewer = ''Alice'', review_text = ''Great'',
             rating = 5, created_at = 0\<rparr>"
    by (simp add: library_def)
  show ?thesis
    using C3_delete_cascades [OF b, of blank_title] b r
    by simp
qed

text \<open>
  C4. The claim: for every key \<open>k\<close> that is not stored, Retrieve, Update and Delete on
  \<open>k\<close> each answer 404 with an empty body and no entity, and leave the store as it
  was. The class based handler raises \<^verbatim>\<open>Http404\<close>, which the framework answers with
  the body \<^verbatim>\<open>{"detail": "Not found."}\<close>, not an empty one.
\<close>

theorem C4_missing_item_class_based_body_counterexample:
  "books empty_store 7 = None
   \<and> fst (cbv_pk \<lparr>request_method = GET, data = blank_title\<rparr> 7 empty_store)
       = Response (Detail NotFound) HTTP_404_NOT_FOUND
   \<and> resp_data (fst (cbv_pk \<lparr>request_method = GET, data = blank_title\<rparr> 7 empty_store))
       \<noteq> NoContent"
proof -
  have b: "books empty_store 7 = None"
    by (simp add: empty_store_def)
  show ?thesis
    using item_missing(2) [OF b, of GET blank_title] b
    by (simp add: Response_def)
qed

text \<open>
  C4 as amended: for every key \<open>k\<close> that is not stored, Retrieve, Update and Delete on
  \<open>k\<close> each answer 404 without an entity and leave the store as it was; the body is
  empty in the function based handler and the not-found detail in the class based one.
\<close>

theorem C4_missing_item:
  assumes "books s k = None" and "m \<in> {GET, PUT, DELETE}"
  shows "fbv_pk \<lparr>request_method = m, data = d\<rparr> k s
           = (Response NoContent HTTP_404_NOT_FOUND, s)
       \<and> cbv_pk \<lparr>request_method = m, data = d\<rparr> k s
           = (Response (Detail NotFound) HTTP_404_NOT_FOUND, s)"
  using item_missing [OF assms] by simp

theorem C4_missing_item_witness:
  "books library 3 = None
   \<and> fbv_pk \<lparr>request_method = PUT, data = blank_title\<rparr> 3 library
       = (Response NoContent HTTP_404_NOT_FOUND, library)
   \<and> cbv_pk \<lparr>request_method = DELETE, data = blank_title\<rparr> 3 library
       = (Response (Detail NotFound) HTTP_404_NOT_FOUND, library)"
proof -
  have b: "books library 3 = None"
    by (simp add: library_def)
  show ?thesis
    using C4_missing_item [OF b, of PUT blank_title] C4_missing_item [OF b, of DELETE blank_title] b
    by simp
qed

section \<open>Create, retrieve and update\<close>







section \<open>Invariant and frame properties\<close>

text \<open>
  C8. Referential integrity is an invariant of every operation: from a store in which
  the book of every review is a stored book, any sequence of List, Create, Retrieve,
  Update and Delete requests to the function based and the class based routes leads to
  a store in which that holds again.
\<close>

theorem C8_referential_integrity:
  "referential_integrity s \<Longrightarrow> referential_integrity (serve rqs s)"
proof (induction rqs arbitrary: s)
  case Nil
  then show ?case by simp
next
  case (Cons rq rqs)
  from Cons.prems have "referential_integrity (snd (urlpatterns (fst rq) (snd rq) s))"
    by (rule integrity_step)
  then show ?case
    by (simp add: Cons.IH)
qed

theorem C8_referential_integrity_witness:
  "referential_integrity library
   \<and> referential_integrity
       (serve [(Rest_fbv_pk 1, \<lparr>request_method = DELETE, data = blank_title\<rparr>),
               (Rest_cbv_list, \<lparr>request_method = POST, data = dune_payload\<rparr>),
               (Rest_fbv_pk 2, \<lparr>request_method = PUT, data = dune_payload\<rparr>),
               (Rest_cbv_pk 2, \<lparr>request_method = DELETE, data = blank_title\<rparr>)] library)
   \<and> reviews (serve [(Rest_fbv_pk 1, \<lparr>request_method = DELETE, data = blank_title\<rparr>)] library) 1
       = None
   \<and> reviews (serve [(Rest_fbv_pk 1, \<lparr>request_method = DELETE, data = blank_title\<rparr>)] library) 2
       \<noteq> None"
proof -
  have b: "books library 1 = Some dune"
    by (simp add: library_def)
  have 1: "reviews (serve [(Rest_fbv_pk 1, \<lparr>request_method = DELETE, data = blank_title\<rparr>)]
             library) 1 = None"
    by (simp add: urlpatterns_def delete_found(1) [OF b] Book_delete_def) (simp add: library_def)
  have 2: "reviews (serve [(Rest_fbv_pk 1, \<lparr>request_method = DELETE, data = blank_title\<rparr>)]
             library) 2 \<noteq> None"
    by (simp add: urlpatterns_def delete_found(1) [OF b] Book_delete_def) (simp add: library_def)
  from library_integrity C8_referential_integrity [OF library_integrity] 1 2 show ?thesis
    by (intro conjI)
qed

text \<open>
  C9. The read operations modify nothing: List (GET on the collection) and Retrieve
  (GET on an item, whether or not the key resolves) return the store they were given,
  every book and every review of it, in both handler styles.
\<close>

theorem C9_reads_leave_store:
  "snd (fbv_list \<lparr>request_method = GET, data = d\<rparr> s) = s
   \<and> snd (fbv_pk \<lparr>request_method = GET, data = d\<rparr> k s) = s
   \<and> snd (cbv_list \<lparr>request_method = GET, data = d\<rparr> s) = s
   \<and> snd (cbv_pk \<lparr>request_method = GET, data = d\<rparr> k s) = s"
  by (cases "books s k") (simp_all add: view_defs)

text \<open>
  C10. Cascade delete is precisely scoped: for every key \<open>k\<close> of a stored book, Delete
  on \<open>k\<close> leaves every other book and every review of another book as it was, adds no
  review, and leaves both key counters as they were. Both handler styles.
\<close>

theorem C10_delete_scope:
  assumes "books s k = Some b"
  shows "(\<forall>k'. k' \<noteq> k \<longrightarrow>
            books (snd (fbv_pk \<lparr>request_method = DELETE, data = d\<rparr> k s)) k' = books s k'
          \<and> books (snd (cbv_pk \<lparr>request_method = DELETE, data = d\<rparr> k s)) k' = books s k')
       \<and> (\<forall>rid r. reviews s rid = Some r \<and> book_id r \<noteq> k \<longrightarrow>
            reviews (snd (fbv_pk \<lparr>request_method = DELETE, data = d\<rparr> k s)) rid = Some r
          \<and> reviews (snd (cbv_pk \<lparr>request_method = DELETE, data = d\<rparr> k s)) rid = Some r)
       \<and> (\<forall>rid. reviews s rid = None \<longrightarrow>
            reviews (snd (fbv_pk \<lparr>request_method = DELETE, data = d\<rparr> k s)) rid = None
          \<and> reviews (snd (cbv_pk \<lparr>request_method = DELETE, data = d\<rparr> k s)) rid = None)
       \<and> book_seq (snd (fbv_pk \<lparr>request_method = DELETE, data = d\<rparr> k s)) = book_seq s
       \<and> review_seq (snd (fbv_pk \<lparr>request_method = DELETE, data = d\<rparr> k s)) = review_seq s
       \<and> book_seq (snd (cbv_pk \<lparr>request_method = DELETE, data = d\<rparr> k s)) = book_seq s
       \<and> review_seq (snd (cbv_pk \<lparr>request_method = DELETE, data = d\<rparr> k s)) = review_seq s"
  by (simp add: delete_found [OF assms] Book_delete_books Book_delete_reviews Book_delete_seqs)

theorem C10_delete_scope_witness:
  "books library 1 = Some dune
   \<and> books (snd (fbv_pk \<lparr>request_method = DELETE, data = blank_title\<rparr> 1 library)) 2 = Some emma
   \<and> books (snd (cbv_pk \<lparr>request_method = DELETE, data = blank_title\<rparr> 1 library)) 2 = Some emma
   \<and> reviews (snd (fbv_pk \<lparr>request_method = DELETE, data = blank_title\<rparr> 1 library)) 2
       = reviews library 2
   \<and> reviews (snd (cbv_pk \<lparr>request_method = DELETE, data = blank_title\<rparr> 1 library)) 2
       = reviews library 2
   \<and> map_option book_id (reviews library 2) = Some 2"
proof -
  have b: "books library 1 = Some dune" and b2: "books library 2 = Some emma"
    by (simp_all add: library_def)
  have r: "reviews library 2 = Some \<lparr>book_id = 2, reviewer = ''Bob'', review_text = ''Witty'',
             rating = 4, created_at = 1\<rparr>"
    by (simp add: library_def)
  show ?thesis
    using C10_delete_scope [OF b, of blank_title] b b2 r
    by simp
qed

end
